theory Spec2Isabelle
  imports Complex_Main
begin

text \<open>
  A model of the chat-and-map application: the component \<open>App\<close> with its message
  handler \<open>debouncedHandleMessage\<close>, \<open>calculateZoom\<close>, \<open>validateCoordinates\<close> and the
  route effect (source file \<open>part_001\<close>), \<open>getAIResponse\<close> (\<open>lib/ai.ts\<close>) and
  \<open>getDirections\<close> (source file \<open>part_000\<close>, imported as \<open>lib/directions\<close>). The
  debounce timer is not modelled: the handler is what runs when the timer fires.
\<close>

section \<open>Strings and regular expressions of the host language\<close>

text \<open>
  Strings are lists of bytes; the model covers ASCII text. JavaScript numbers are
  modelled as exact reals, with \<open>None\<close> standing for NaN where a number is parsed
  from text; IEEE rounding is not modelled.
\<close>

definition isDigit :: "char \<Rightarrow> bool" where
  "isDigit c = (c \<in> set ''0123456789'')"

text \<open>The ASCII members of the class \<open>\s\<close>: space, TAB, LF, VT, FF, CR.\<close>

definition isSpace :: "char \<Rightarrow> bool" where
  "isSpace c = (c \<in> set [CHR '' '', CHR 0x09, CHR 0x0A, CHR 0x0B, CHR 0x0C, CHR 0x0D])"

text \<open>
  The regular expressions of the program are flat sequences of quantified atoms, so a
  regular expression is a list of (atom, quantifier) pairs. Capture groups do not change
  what a global \<open>match\<close> returns and are left out.
\<close>

datatype atom = Chr char | Digit | Space

datatype quant = Once | Optional | ZeroOrMore | OneOrMore

type_synonym regex = "(atom \<times> quant) list"

fun accepts :: "atom \<Rightarrow> char \<Rightarrow> bool" where
  "accepts (Chr c) x = (x = c)"
| "accepts Digit x = isDigit x"
| "accepts Space x = isSpace x"

text \<open>
  How many repetitions a quantified atom tries, in the order a backtracking matcher
  tries them (greedy: longest first), given the length \<open>n\<close> of the run of accepted
  characters at the current position.
\<close>

fun candidates :: "quant \<Rightarrow> nat \<Rightarrow> nat list" where
  "candidates Once n = (if 1 \<le> n then [1] else [])"
| "candidates Optional n = (if 1 \<le> n then [1, 0] else [0])"
| "candidates ZeroOrMore n = rev [0..<Suc n]"
| "candidates OneOrMore n = rev [1..<Suc n]"

primrec firstSome :: "('a \<Rightarrow> 'b option) \<Rightarrow> 'a list \<Rightarrow> 'b option" where
  "firstSome f [] = None"
| "firstSome f (x # xs) = (case f x of Some y \<Rightarrow> Some y | None \<Rightarrow> firstSome f xs)"

text \<open>
  \<open>rmatch r s\<close>: the backtracking match of \<open>r\<close> anchored at the start of \<open>s\<close>;
  \<open>Some n\<close> when the first successful alternative consumes \<open>n\<close> characters.
\<close>

fun rmatch :: "regex \<Rightarrow> string \<Rightarrow> nat option" where
  "rmatch [] s = Some 0"
| "rmatch ((a, q) # r) s =
     firstSome (\<lambda>k. map_option (\<lambda>n. k + n) (rmatch r (drop k s)))
       (candidates q (length (takeWhile (accepts a) s)))"

text \<open>
  \<open>String.prototype.match\<close> with a global regular expression: every match, left to
  right, the search resuming after each match (one character further after an empty
  match, and after a position with no match): after a match of \<open>n\<close> characters at
  \<open>c # cs\<close> the search resumes at \<open>drop (max 1 n) (c # cs)\<close>. The caller sees \<open>null\<close>
  when the list is empty, see \<open>matchG\<close>.
\<close>

fun matchAll :: "regex \<Rightarrow> string \<Rightarrow> string list" where
  "matchAll r [] = (case rmatch r [] of None \<Rightarrow> [] | Some n \<Rightarrow> [[]])"
| "matchAll r (c # cs) =
     (case rmatch r (c # cs) of
        None \<Rightarrow> matchAll r cs
      | Some n \<Rightarrow> take n (c # cs) # matchAll r (drop (max 1 n - 1) cs))"

definition matchG :: "regex \<Rightarrow> string \<Rightarrow> string list option" where
  "matchG r s = (case matchAll r s of [] \<Rightarrow> None | m # ms \<Rightarrow> Some (m # ms))"

text \<open>\<open>s.split(',')\<close> for a one-character separator.\<close>

fun split :: "char \<Rightarrow> string \<Rightarrow> string list" where
  "split sep [] = [[]]"
| "split sep (c # cs) =
     (if c = sep then [] # split sep cs
      else (case split sep cs of [] \<Rightarrow> [[c]] | p # ps \<Rightarrow> (c # p) # ps))"

definition trim :: "string \<Rightarrow> string" where
  "trim s = rev (dropWhile isSpace (rev (dropWhile isSpace s)))"

definition digitsValue :: "string \<Rightarrow> nat" where
  "digitsValue ds = foldl (\<lambda>acc d. 10 * acc + (of_char d - 48)) 0 ds"

text \<open>
  \<open>Number(s)\<close> on strings: surrounding white space is ignored, the empty string is 0, a
  signed decimal literal (digits, an optional point, digits, with at least one digit) has
  its value, anything else is NaN (\<open>None\<close>). Exponents, radix prefixes and
  \<open>Infinity\<close> are not modelled; no regular-expression match of the program contains them.
\<close>

definition unsignedDecimal :: "string \<Rightarrow> real option" where
  "unsignedDecimal t =
     (let ds = takeWhile isDigit t; rest = dropWhile isDigit t in
      if rest = [] then (if ds = [] then None else Some (real (digitsValue ds)))
      else if hd rest = CHR ''.'' \<and> list_all isDigit (tl rest) \<and> (ds \<noteq> [] \<or> tl rest \<noteq> [])
        then Some (real (digitsValue ds) + real (digitsValue (tl rest)) / 10 ^ length (tl rest))
      else None)"

definition Number :: "string \<Rightarrow> real option" where
  "Number s =
     (let t = trim s in
      if t = [] then Some 0
      else if hd t = CHR ''-'' then map_option uminus (unsignedDecimal (tl t))
      else if hd t = CHR ''+'' then unsignedDecimal (tl t)
      else unsignedDecimal t)"

section \<open>Coordinate extraction (App.tsx)\<close>

type_synonym Coordinates = "real \<times> real"

text \<open>The errors thrown in the program and by the calls it makes.\<close>

datatype exn =
    Cooldown
  | InvalidCoordinates
  | LatitudeOutOfRange
  | LongitudeOutOfRange
  | FailedToFetchDirections
  | NoRouteFound
  | FetchFailed
  | SyntaxError
  | TypeError

text \<open>\<open>validateCoordinates\<close>; a NaN argument is \<open>None\<close>.\<close>

definition validateCoordinates :: "real option \<Rightarrow> real option \<Rightarrow> exn + Coordinates" where
  "validateCoordinates lat lng =
     (case (lat, lng) of
        (Some x, Some y) \<Rightarrow>
          if x < -90 \<or> x > 90 then Inl LatitudeOutOfRange
          else if y < -180 \<or> y > 180 then Inl LongitudeOutOfRange
          else Inr (x, y)
      | _ \<Rightarrow> Inl InvalidCoordinates)"

text \<open>The regular expression \<^verbatim>\<open>/\[(-?\d+\.?\d*),\s*(-?\d+\.?\d*)\]/g\<close>.\<close>

definition coordsRegex :: regex where
  "coordsRegex =
     [(Chr CHR ''['', Once),
      (Chr CHR ''-'', Optional), (Digit, OneOrMore), (Chr CHR ''.'', Optional), (Digit, ZeroOrMore),
      (Chr CHR '','', Once), (Space, ZeroOrMore),
      (Chr CHR ''-'', Optional), (Digit, OneOrMore), (Chr CHR ''.'', Optional), (Digit, ZeroOrMore),
      (Chr CHR '']'', Once)]"

text \<open>
  The callback of \<open>coordsMatches.map\<close>: strip the brackets, split at commas, convert with
  \<open>Number\<close>, destructure the first two entries (a missing entry is \<open>undefined\<close>, which
  \<open>isNaN\<close> reports as NaN) and validate.
\<close>

definition parseCoord :: "string \<Rightarrow> exn + Coordinates" where
  "parseCoord coord =
     (let parts = map Number (split CHR '','' (filter (\<lambda>c. c \<noteq> CHR ''['' \<and> c \<noteq> CHR '']'') coord));
          nth_or_nan = (\<lambda>i. if i < length parts then parts ! i else None)
      in validateCoordinates (nth_or_nan 0) (nth_or_nan 1))"

text \<open>\<open>Array.prototype.map\<close> with a callback that may throw: the first throw ends the map.\<close>

fun mapThrowing :: "('a \<Rightarrow> exn + 'b) \<Rightarrow> 'a list \<Rightarrow> exn + 'b list" where
  "mapThrowing f [] = Inr []"
| "mapThrowing f (x # xs) =
     (case f x of
        Inl e \<Rightarrow> Inl e
      | Inr y \<Rightarrow> (case mapThrowing f xs of Inl e \<Rightarrow> Inl e | Inr ys \<Rightarrow> Inr (y # ys)))"

text \<open>
  Lines 139 to 145 of the handler: \<open>coordinates\<close> is \<open>undefined\<close> (\<open>None\<close>) when the
  text has no match, and the whole computation throws when one match fails to validate.
\<close>

definition extractCoordinates :: "string \<Rightarrow> exn + Coordinates list option" where
  "extractCoordinates aiResponse =
     (case matchG coordsRegex aiResponse of
        None \<Rightarrow> Inr None
      | Some coordsMatches \<Rightarrow>
          (case mapThrowing parseCoord coordsMatches of
             Inl e \<Rightarrow> Inl e
           | Inr cs \<Rightarrow> Inr (Some cs)))"

section \<open>Zoom calculation (App.tsx, \<open>calculateZoom\<close>)\<close>

datatype Status = Sending | Sent | Error

record Message =
  id_msg :: string
  text_msg :: string
  isUser :: bool
  timestamp :: int
  status :: "Status option"

text \<open>\<open>toLowerCase\<close> on ASCII text.\<close>

definition toLowerChar :: "char \<Rightarrow> char" where
  "toLowerChar c =
     (case map_of (zip ''ABCDEFGHIJKLMNOPQRSTUVWXYZ'' ''abcdefghijklmnopqrstuvwxyz'') c of
        Some l \<Rightarrow> l
      | None \<Rightarrow> c)"

definition toLowerCase :: "string \<Rightarrow> string" where
  "toLowerCase s = map toLowerChar s"

fun startsWith :: "string \<Rightarrow> string \<Rightarrow> bool" where
  "startsWith s [] = True"
| "startsWith [] (c # t) = False"
| "startsWith (x # s) (c # t) = (x = c \<and> startsWith s t)"

text \<open>\<open>s.includes(t)\<close>: \<open>t\<close> occurs in \<open>s\<close> as a contiguous substring.\<close>

primrec includesStr :: "string \<Rightarrow> string \<Rightarrow> bool" where
  "includesStr [] t = (t = [])"
| "includesStr (x # s) t = (startsWith (x # s) t \<or> includesStr s t)"

definition building :: "string list" where
  "building = [''tower'', ''temple'', ''museum'', ''stadium'', ''palace'', ''monument'',
     ''building'', ''restaurant'', ''cafe'', ''shop'']"

definition area :: "string list" where
  "area = [''park'', ''garden'', ''district'', ''neighborhood'', ''campus'', ''complex'']"

definition city :: "string list" where
  "city = [''city'', ''town'', ''village'']"

text \<open>\<open>Math.atan2(y, x)\<close> on reals.\<close>

definition atan2 :: "real \<Rightarrow> real \<Rightarrow> real" where
  "atan2 y x =
     (if 0 < x then arctan (y / x)
      else if x < 0 then (if 0 \<le> y then arctan (y / x) + pi else arctan (y / x) - pi)
      else if 0 < y then pi / 2
      else if y < 0 then - (pi / 2)
      else 0)"

text \<open>Lines 84 to 92: the haversine distance in km between two points (degrees).\<close>

definition haversineDistance :: "Coordinates \<Rightarrow> Coordinates \<Rightarrow> real" where
  "haversineDistance start end' =
     (let R = 6371;
          dLat = (fst end' - fst start) * pi / 180;
          dLon = (snd end' - snd start) * pi / 180;
          a = sin (dLat / 2) * sin (dLat / 2) +
              cos (fst start * pi / 180) * cos (fst end' * pi / 180) *
              sin (dLon / 2) * sin (dLon / 2);
          c = 2 * atan2 (sqrt a) (sqrt (1 - a))
      in R * c)"

text \<open>Lines 95 to 104: the chain of distance thresholds.\<close>

definition zoomForDistance :: "real \<Rightarrow> nat" where
  "zoomForDistance distance =
     (if distance < 1 then 15
      else if distance < 5 then 13
      else if distance < 20 then 11
      else if distance < 50 then 10
      else if distance < 100 then 9
      else if distance < 250 then 7
      else if distance < 500 then 6
      else if distance < 1000 then 5
      else if distance < 2500 then 4
      else 3)"

text \<open>Lines 69 to 79: the zoom of a single location, from the text of the last message.\<close>

definition zoomForText :: "Message list \<Rightarrow> nat" where
  "zoomForText msgs =
     (let messageText = (if msgs = [] then [] else toLowerCase (text_msg (last msgs))) in
      if list_ex (includesStr messageText) building then 18
      else if list_ex (includesStr messageText) area then 16
      else if list_ex (includesStr messageText) city then 13
      else 17)"

text \<open>
  \<open>calculateZoom(bounds, isRoute)\<close>; \<open>msgs\<close> is the \<open>messages\<close> array its closure
  holds. In route mode, destructuring fewer than two bounds leaves \<open>end\<close> undefined and
  reading \<open>end[0]\<close> throws.
\<close>

definition calculateZoom :: "Coordinates list \<Rightarrow> bool \<Rightarrow> Message list \<Rightarrow> exn + nat" where
  "calculateZoom bounds isRoute msgs =
     (if \<not> isRoute then Inr (zoomForText msgs)
      else (case bounds of
              start # end' # _ \<Rightarrow> Inr (zoomForDistance (haversineDistance start end'))
            | _ \<Rightarrow> Inl TypeError))"

section \<open>External services (lib/ai.ts, lib/directions.ts)\<close>

text \<open>A \<open>LatLngExpression\<close> is a pair \<open>[lat, lng]\<close> or an object with these two fields.\<close>

datatype LatLngExpression = Tuple Coordinates | LatLng real real

text \<open>One route of the routing service's reply, its polyline already decoded.\<close>

record OsrmRoute =
  geometry :: "Coordinates list"
  distance_osrm :: real
  duration_osrm :: real

text \<open>
  What \<open>fetch\<close> and \<open>response.json()\<close> give: the request fails, the status is not ok,
  the body does not parse, or the body's \<open>routes\<close> field (\<open>None\<close> when absent).
\<close>

datatype FetchResult = FetchRejected | NotOk | BadJson | Routes "OsrmRoute list option"

record Summary =
  distance :: real
  duration :: real

record DirectionsResponse =
  route_dir :: "LatLngExpression list"
  summary :: Summary

text \<open>
  What one invocation of the handler reads from outside the application state: the
  successive results of \<open>uuidv4()\<close> and \<open>Date.now()\<close> (numbered from 0 in program
  order), the \<open>messages\<close> array held by the closure of \<open>calculateZoom\<close>, the outcome of
  the AI chat call (\<open>None\<close> when it throws), the outcome of the routing request, and
  the number formatting of \<open>toFixed(1)\<close> and of \<open>Math.round\<close> in a template string.
\<close>

record Env =
  uuidv4 :: "nat \<Rightarrow> string"
  dateNow :: "nat \<Rightarrow> int"
  captured :: "Message list"
  sendMessage :: "string \<Rightarrow> string option"
  fetchOsrm :: "Coordinates \<Rightarrow> Coordinates \<Rightarrow> FetchResult"
  toFixed1 :: "real \<Rightarrow> string"
  roundToString :: "real \<Rightarrow> string"

definition aiFallback :: string where
  "aiFallback = ''I'' @ [CHR 0x27] @ ''m having trouble processing your request. Please try again.''"

text \<open>
  \<open>getAIResponse\<close>: every failure of the chat call is caught and answered by a fixed
  text. The construction of the model object, which stands before the \<open>try\<close> block,
  makes no request and is taken not to throw.
\<close>

definition getAIResponse :: "Env \<Rightarrow> string \<Rightarrow> string" where
  "getAIResponse env message =
     (case sendMessage env message of Some t \<Rightarrow> t | None \<Rightarrow> aiFallback)"

definition getDirections :: "Env \<Rightarrow> Coordinates \<Rightarrow> Coordinates \<Rightarrow> exn + DirectionsResponse" where
  "getDirections env start end' =
     (case fetchOsrm env start end' of
        FetchRejected \<Rightarrow> Inl FetchFailed
      | NotOk \<Rightarrow> Inl FailedToFetchDirections
      | BadJson \<Rightarrow> Inl SyntaxError
      | Routes None \<Rightarrow> Inl NoRouteFound
      | Routes (Some []) \<Rightarrow> Inl NoRouteFound
      | Routes (Some (r # _)) \<Rightarrow>
          Inr \<lparr>route_dir = map Tuple (geometry r),
               summary = \<lparr>distance = distance_osrm r / 1000, duration = duration_osrm r / 60\<rparr>\<rparr>)"

section \<open>Application state and the message handler (App.tsx)\<close>

record Marker =
  id_marker :: string
  position :: LatLngExpression
  popup :: "string option"

text \<open>
  The state of the component. \<open>controllers\<close> holds the \<open>aborted\<close> flag of every
  \<open>AbortController\<close> created so far and \<open>abortControllerRef\<close> points into it.
\<close>

record AppState =
  messages :: "Message list"
  mapCenter :: LatLngExpression
  markers :: "Marker list"
  route :: "LatLngExpression list option"
  isLoading :: bool
  controllers :: "bool list"
  abortControllerRef :: "nat option"
  zoom :: nat
  pendingRequests :: "string set"
  lastRequestTime :: int

definition REQUEST_COOLDOWN :: int where
  "REQUEST_COOLDOWN = 1000"

definition welcomeText :: string where
  "welcomeText =
     ''Hello! I can help you find locations and get directions. Try:\<newline>- '' @ [CHR 0x27] @
     ''Where is the Eiffel Tower?'' @ [CHR 0x27] @ ''\<newline>- '' @ [CHR 0x27] @
     ''Show me directions from London to Paris'' @ [CHR 0x27]"

definition initialState :: "int \<Rightarrow> AppState" where
  "initialState t =
     \<lparr>messages = [\<lparr>id_msg = ''welcome'', text_msg = welcomeText, isUser = False,
                    timestamp = t, status = None\<rparr>],
      mapCenter = Tuple (51.505, -0.09),
      markers = [],
      route = None,
      isLoading = False,
      controllers = [],
      abortControllerRef = None,
      zoom = 13,
      pendingRequests = {},
      lastRequestTime = 0\<rparr>"

definition assistantMessage :: "string \<Rightarrow> string \<Rightarrow> int \<Rightarrow> Message" where
  "assistantMessage i t ts =
     \<lparr>id_msg = i, text_msg = t, isUser = False, timestamp = ts, status = None\<rparr>"

definition userMessage :: "string \<Rightarrow> string \<Rightarrow> int \<Rightarrow> Message" where
  "userMessage i t ts =
     \<lparr>id_msg = i, text_msg = t, isUser = True, timestamp = ts, status = Some Sending\<rparr>"

text \<open>\<open>prev.map(msg => msg.id === messageId ? { ...msg, status } : msg)\<close>\<close>

definition setStatus :: "string \<Rightarrow> Status \<Rightarrow> Message list \<Rightarrow> Message list" where
  "setStatus messageId st msgs =
     map (\<lambda>msg. if id_msg msg = messageId then msg\<lparr>status := Some st\<rparr> else msg) msgs"

definition errorMessage :: string where
  "errorMessage = ''An error occurred. Please try again.''"

text \<open>\<open>handleError\<close>; \<open>k\<close> numbers the call of \<open>uuidv4\<close> it makes.\<close>

definition handleError :: "Env \<Rightarrow> nat \<Rightarrow> AppState \<Rightarrow> AppState" where
  "handleError env k s =
     s\<lparr>messages := messages s @ [assistantMessage (uuidv4 env k) errorMessage (dateNow env 2)]\<rparr>"

text \<open>The \<open>catch\<close> and \<open>finally\<close> blocks of the handler (lines 213 to 228).\<close>

definition catchBlock :: "Env \<Rightarrow> nat \<Rightarrow> string \<Rightarrow> AppState \<Rightarrow> AppState" where
  "catchBlock env k messageId s =
     (let s1 = handleError env k s in s1\<lparr>messages := setStatus messageId Error (messages s1)\<rparr>)"

definition finallyBlock :: "string \<Rightarrow> AppState \<Rightarrow> AppState" where
  "finallyBlock messageId s =
     s\<lparr>isLoading := False, abortControllerRef := None,
       pendingRequests := pendingRequests s - {messageId}\<rparr>"

text \<open>Lines 207 to 212, the last statement of the \<open>try\<close> block.\<close>

definition markSent :: "string \<Rightarrow> AppState \<Rightarrow> AppState" where
  "markSent messageId s = s\<lparr>messages := setStatus messageId Sent (messages s)\<rparr>"

text \<open>
  The popup of a single marker (line 187): the message without a leading
  \<open>where is\<close>, \<open>show me\<close>, \<open>find\<close> or \<open>locate\<close> (any case) and the white space after it,
  and without one final \<open>?\<close>, \<open>.\<close> or \<open>!\<close>.
\<close>

definition stripLeadingVerb :: "string \<Rightarrow> string" where
  "stripLeadingVerb message =
     (case List.find (\<lambda>p. startsWith (toLowerCase message) p \<and>
                           takeWhile isSpace (drop (length p) message) \<noteq> [])
             [''where is'', ''show me'', ''find'', ''locate''] of
        None \<Rightarrow> message
      | Some p \<Rightarrow> dropWhile isSpace (drop (length p) message))"

definition stripFinalPunctuation :: "string \<Rightarrow> string" where
  "stripFinalPunctuation t =
     (if t \<noteq> [] \<and> last t \<in> set ''?.!'' then butlast t else t)"

definition locationName :: "string \<Rightarrow> string" where
  "locationName message = stripFinalPunctuation (stripLeadingVerb message)"

definition routeApology :: string where
  "routeApology = ''\<newline>\<newline>I apologize, but I couldn'' @ [CHR 0x27] @
     ''t calculate the detailed route at the moment.''"

definition enhancedResponse :: "Env \<Rightarrow> string \<Rightarrow> DirectionsResponse \<Rightarrow> string" where
  "enhancedResponse env aiResponse directions =
     aiResponse @ ''\<newline>\<newline>Distance: '' @ toFixed1 env (distance (summary directions)) @
     '' km\<newline>Estimated time: '' @ roundToString env (duration (summary directions)) @ '' minutes''"

text \<open>
  Where an invocation of the handler stands when it gives control back: it threw before
  its \<open>try\<close>, it returned, or it waits for the AI answer or for the routing answer (with
  the local variables the rest of the body reads).
\<close>

datatype Outcome =
    Threw exn
  | Returned
  | AwaitingAI string
  | AwaitingRoute string string Coordinates Coordinates "Coordinates list"

text \<open>Lines 110 to 138: from the call to the first \<open>await\<close>.\<close>

definition handleStart :: "Env \<Rightarrow> string \<Rightarrow> AppState \<Rightarrow> Outcome \<times> AppState" where
  "handleStart env message s =
     (let now = dateNow env 0 in
      if now - lastRequestTime s < REQUEST_COOLDOWN then (Threw Cooldown, s)
      else
        let messageId = uuidv4 env 0;
            s1 = s\<lparr>pendingRequests := insert messageId (pendingRequests s)\<rparr>;
            s2 = s1\<lparr>lastRequestTime := now\<rparr>
        in if trim message = [] then (Returned, s2)
           else
             let s3 = (case abortControllerRef s2 of
                         Some i \<Rightarrow> s2\<lparr>controllers := (controllers s2)[i := True]\<rparr>
                       | None \<Rightarrow> s2);
                 s4 = s3\<lparr>controllers := controllers s3 @ [False],
                         abortControllerRef := Some (length (controllers s3))\<rparr>;
                 s5 = s4\<lparr>isLoading := True\<rparr>;
                 s6 = s5\<lparr>messages := messages s5 @ [userMessage messageId message (dateNow env 1)]\<rparr>
             in (AwaitingAI messageId, s6))"

text \<open>
  Lines 139 to 153 and 186 to 228: from the AI answer to the routing request, or to the
  end of the body when fewer than two coordinates were extracted or extraction threw.
\<close>

definition afterAI :: "Env \<Rightarrow> string \<Rightarrow> string \<Rightarrow> string \<Rightarrow> AppState \<Rightarrow> Outcome \<times> AppState" where
  "afterAI env message messageId aiResponse s =
     (case extractCoordinates aiResponse of
        Inl e \<Rightarrow> (Returned, finallyBlock messageId (catchBlock env 1 messageId s))
      | Inr (Some (start # end' # rest)) \<Rightarrow>
          (AwaitingRoute messageId aiResponse start end' (start # end' # rest),
           s\<lparr>markers := [\<lparr>id_marker = uuidv4 env 1, position = Tuple start, popup = Some ''Start''\<rparr>,
                          \<lparr>id_marker = uuidv4 env 2, position = Tuple end', popup = Some ''End''\<rparr>]\<rparr>)
      | Inr (Some [c]) \<Rightarrow>
          (let s1 = s\<lparr>markers := [\<lparr>id_marker = uuidv4 env 1, position = Tuple c,
                                    popup = Some (locationName message)\<rparr>]\<rparr>;
               s2 = s1\<lparr>mapCenter := Tuple c\<rparr>
           in case calculateZoom [c, c] False (captured env) of
                Inl e \<Rightarrow> (Returned, finallyBlock messageId (catchBlock env 2 messageId s2))
              | Inr newZoom \<Rightarrow>
                  (let s3 = s2\<lparr>zoom := newZoom\<rparr>;
                       s4 = s3\<lparr>messages := messages s3 @
                              [assistantMessage (uuidv4 env 2) aiResponse (dateNow env 2)]\<rparr>
                   in (Returned, finallyBlock messageId (markSent messageId s4))))
      | Inr _ \<Rightarrow>
          (let s1 = s\<lparr>messages := messages s @
                         [assistantMessage (uuidv4 env 1) aiResponse (dateNow env 2)]\<rparr>
           in (Returned, finallyBlock messageId (markSent messageId s1))))"

text \<open>The \<open>catch\<close> block of the routing request (lines 165 to 174).\<close>

definition directionsFailed :: "Env \<Rightarrow> string \<Rightarrow> Coordinates \<Rightarrow> Coordinates \<Rightarrow> AppState \<Rightarrow> AppState" where
  "directionsFailed env aiResponse start end' s =
     (let s1 = s\<lparr>messages := messages s @
                    [assistantMessage (uuidv4 env 3) (aiResponse @ routeApology) (dateNow env 2)]\<rparr>
      in s1\<lparr>route := Some [Tuple start, Tuple end']\<rparr>)"

text \<open>
  Lines 156 to 185 and 207 to 228: from the routing answer to the end of the body.
  \<open>coordinates\<close> has at least two entries here, so the minima and maxima exist.
\<close>

definition afterRoute ::
  "Env \<Rightarrow> string \<Rightarrow> string \<Rightarrow> Coordinates \<Rightarrow> Coordinates \<Rightarrow> Coordinates list \<Rightarrow>
   exn + DirectionsResponse \<Rightarrow> AppState \<Rightarrow> Outcome \<times> AppState" where
  "afterRoute env messageId aiResponse start end' coordinates directions s =
     (let s1 =
        (case directions of
           Inl e \<Rightarrow> directionsFailed env aiResponse start end' s
         | Inr d \<Rightarrow>
             (let s' = s\<lparr>route := Some (route_dir d)\<rparr> in
              case calculateZoom [start, end'] True (captured env) of
                Inl e \<Rightarrow> directionsFailed env aiResponse start end' s'
              | Inr newZoom \<Rightarrow>
                  (let s'' = s'\<lparr>zoom := newZoom\<rparr> in
                   s''\<lparr>messages := messages s'' @
                         [assistantMessage (uuidv4 env 3) (enhancedResponse env aiResponse d)
                            (dateNow env 2)]\<rparr>)));
          latitudes = map fst coordinates;
          longitudes = map snd coordinates;
          center = ((Min (set latitudes) + Max (set latitudes)) / 2,
                    (Min (set longitudes) + Max (set longitudes)) / 2);
          s2 = s1\<lparr>mapCenter := Tuple center\<rparr>
      in (Returned, finallyBlock messageId (markSent messageId s2)))"

text \<open>
  One invocation of the handler run to its end with nothing else scheduled in between:
  the three parts in sequence, with the answers of the two services.
\<close>

definition handleMessage :: "Env \<Rightarrow> string \<Rightarrow> AppState \<Rightarrow> Outcome \<times> AppState" where
  "handleMessage env message s =
     (case handleStart env message s of
        (AwaitingAI messageId, s1) \<Rightarrow>
          (case afterAI env message messageId (getAIResponse env message) s1 of
             (AwaitingRoute mid aiResponse start end' coordinates, s2) \<Rightarrow>
               afterRoute env mid aiResponse start end' coordinates
                 (getDirections env start end') s2
           | r \<Rightarrow> r)
      | r \<Rightarrow> r)"

section \<open>The route effect (App.tsx, lines 257 to 275)\<close>

fun toCoordinates :: "LatLngExpression \<Rightarrow> Coordinates" where
  "toCoordinates (Tuple c) = c"
| "toCoordinates (LatLng lat lng) = (lat, lng)"

text \<open>
  The effect that runs after a render in which \<open>route\<close> (or \<open>calculateZoom\<close>, that
  is, \<open>messages\<close>) changed. Its \<open>calculateZoom\<close> is the one of that render, whose
  closure holds the current messages, and it is called with one argument, so \<open>isRoute\<close>
  takes its default \<open>false\<close>.
\<close>

definition routeEffect :: "AppState \<Rightarrow> AppState" where
  "routeEffect s =
     (case route s of
        None \<Rightarrow> s
      | Some r \<Rightarrow>
          if length r \<ge> 2 then
            (let bounds = map toCoordinates r in
             case calculateZoom [bounds ! 0, bounds ! (length bounds - 1)] False (messages s) of
               Inl e \<Rightarrow> s
             | Inr newZoom \<Rightarrow>
                 (let s1 = s\<lparr>zoom := newZoom\<rparr>;
                      startPoint = bounds ! 0;
                      endPoint = bounds ! (length bounds - 1);
                      center = ((fst startPoint + fst endPoint) / 2,
                                (snd startPoint + snd endPoint) / 2)
                  in s1\<lparr>mapCenter := Tuple center\<rparr>))
          else s)"

section \<open>Example runs\<close>

text \<open>
  A concrete environment for the examples: identifiers \<open>tag\<close>, \<open>tag+\<close>, \<open>tag++\<close>, ...,
  a clock that starts at \<open>t0\<close>, fixed answers of the two services and a placeholder for
  formatted numbers.
\<close>

definition exampleEnv :: "string \<Rightarrow> int \<Rightarrow> Message list \<Rightarrow> string option \<Rightarrow> FetchResult \<Rightarrow> Env" where
  "exampleEnv tag t0 msgs ai fetched =
     \<lparr>uuidv4 = (\<lambda>k. tag @ replicate k CHR ''+''), dateNow = (\<lambda>k. t0 + int k), captured = msgs,
      sendMessage = (\<lambda>_. ai), fetchOsrm = (\<lambda>_ _. fetched),
      toFixed1 = (\<lambda>_. ''?''), roundToString = (\<lambda>_. ''?'')\<rparr>"







text \<open>
  A request whose answer names two points half a turn apart on the equator, with a
  routing service that answers with a path of three points.
\<close>

definition envRoute :: Env where
  "envRoute = exampleEnv ''a'' 5000 (messages (initialState 0)) (Some ''Route: [[0, 0], [0, 180]]'')
     (Routes (Some [\<lparr>geometry = [(0, 0), (0, 90), (0, 180)], distance_osrm = 20015000,
                     duration_osrm = 720000\<rparr>]))"

definition routeSet :: AppState where
  "routeSet = snd (handleMessage envRoute ''Show me directions from A to B'' (initialState 0))"

section \<open>What the coordinate pattern denotes\<close>

text \<open>
  The strings a regular expression denotes, independent of any matching strategy: a
  sequence of runs, one per quantified atom, each run made of characters the atom
  accepts and of a length the quantifier allows.
\<close>

fun repeats :: "quant \<Rightarrow> nat \<Rightarrow> bool" where
  "repeats Once k = (k = 1)"
| "repeats Optional k = (k \<le> 1)"
| "repeats ZeroOrMore k = True"
| "repeats OneOrMore k = (1 \<le> k)"

primrec denotes :: "regex \<Rightarrow> string \<Rightarrow> bool" where
  "denotes [] u = (u = [])"
| "denotes (aq # r) u =
     (\<exists>v w. u = v @ w \<and> list_all (accepts (fst aq)) v \<and> repeats (snd aq) (length v) \<and> denotes r w)"

text \<open>
  A number as the coordinate pattern reads it: an optional minus sign, at least one
  digit, an optional point, and any number of digits. A bracketed pair: an opening
  bracket, a number, a comma, any amount of white space, a number, a closing bracket,
  with nothing else in between.
\<close>

definition numberLiteral :: "string \<Rightarrow> bool" where
  "numberLiteral n =
     (\<exists>sg ds pt fs. n = sg @ ds @ pt @ fs \<and> (sg = [] \<or> sg = ''-'') \<and>
        ds \<noteq> [] \<and> list_all isDigit ds \<and> (pt = [] \<or> pt = ''.'') \<and> list_all isDigit fs)"

definition bracketedPair :: "string \<Rightarrow> bool" where
  "bracketedPair m =
     (\<exists>n1 ws n2. m = ''['' @ n1 @ '','' @ ws @ n2 @ '']'' \<and>
        numberLiteral n1 \<and> list_all isSpace ws \<and> numberLiteral n2)"

section \<open>The specifications reading of a failed validation\<close>


section \<open>Facts about the examples and the parts of the handler\<close>

lemma exampleEnv_sel:
  "uuidv4 (exampleEnv tag t0 msgs ai fetched) k = tag @ replicate k CHR ''+''"
  "dateNow (exampleEnv tag t0 msgs ai fetched) k = t0 + int k"
  "captured (exampleEnv tag t0 msgs ai fetched) = msgs"
  "sendMessage (exampleEnv tag t0 msgs ai fetched) m = ai"
  "fetchOsrm (exampleEnv tag t0 msgs ai fetched) c1 c2 = fetched"
  by (simp_all add: exampleEnv_def)

lemma initialState_sel:
  "messages (initialState t) =
     [\<lparr>id_msg = ''welcome'', text_msg = welcomeText, isUser = False, timestamp = t, status = None\<rparr>]"
  "mapCenter (initialState t) = Tuple (51.505, -0.09)"
  "markers (initialState t) = []"
  "route (initialState t) = None"
  "isLoading (initialState t) = False"
  "controllers (initialState t) = []"
  "abortControllerRef (initialState t) = None"
  "zoom (initialState t) = 13"
  "pendingRequests (initialState t) = {}"
  "lastRequestTime (initialState t) = 0"
  by (simp_all add: initialState_def)

lemma example_trim: "trim ''Where is Paris?'' \<noteq> []"
  by (simp add: trim_def isSpace_def)

lemma extract_aiFallback: "extractCoordinates aiFallback = Inr None"
  by code_simp

lemma handleStart_admitted:
  assumes "\<not> dateNow env 0 - lastRequestTime s < 1000" and "trim message \<noteq> []"
  shows "handleStart env message s =
    (AwaitingAI (uuidv4 env 0),
     s\<lparr>pendingRequests := insert (uuidv4 env 0) (pendingRequests s),
       lastRequestTime := dateNow env 0,
       controllers := (case abortControllerRef s of
                         Some i \<Rightarrow> (controllers s)[i := True]
                       | None \<Rightarrow> controllers s) @ [False],
       abortControllerRef := Some (length (controllers s)),
       isLoading := True,
       messages := messages s @ [userMessage (uuidv4 env 0) message (dateNow env 1)]\<rparr>)"
  using assms
  by (simp add: handleStart_def REQUEST_COOLDOWN_def Let_def split: option.splits)

lemma afterAI_none:
  "extractCoordinates ai = Inr None \<Longrightarrow>
   afterAI env message mid ai s =
     (Returned, finallyBlock mid (markSent mid
        (s\<lparr>messages := messages s @ [assistantMessage (uuidv4 env 1) ai (dateNow env 2)]\<rparr>)))"
  by (simp add: afterAI_def)


lemma afterAI_many:
  "extractCoordinates ai = Inr (Some (c1 # c2 # rest)) \<Longrightarrow>
   afterAI env message mid ai s =
     (AwaitingRoute mid ai c1 c2 (c1 # c2 # rest),
      s\<lparr>markers := [\<lparr>id_marker = uuidv4 env 1, position = Tuple c1, popup = Some ''Start''\<rparr>,
                     \<lparr>id_marker = uuidv4 env 2, position = Tuple c2, popup = Some ''End''\<rparr>]\<rparr>)"
  by (simp add: afterAI_def)











lemma extract_example_half_turn: "extractCoordinates ''Route: [[0, 0], [0, 180]]'' = Inr (Some [(0, 0), (0, 180)])"
  by code_simp







lemma haversine_half_turn: "haversineDistance (0, 0) (0, 180) = 6371 * pi"
  by (simp add: haversineDistance_def atan2_def)

lemma zoom_half_turn: "calculateZoom [(0, 0), (0, 180)] True msgs = Inr 3"
  using pi_ge_two
  by (simp add: calculateZoom_def zoomForDistance_def haversine_half_turn)

lemma routeEffect_viewport:
  assumes "route s = Some r" and "2 \<le> length r"
  shows "zoom (routeEffect s) = zoomForText (messages s) \<and>
         mapCenter (routeEffect s) =
           Tuple ((fst (toCoordinates (hd r)) + fst (toCoordinates (last r))) / 2,
                  (snd (toCoordinates (hd r)) + snd (toCoordinates (last r))) / 2)"
proof -
  have ne: "r \<noteq> []" using assms(2) by auto
  have h: "map toCoordinates r ! 0 = toCoordinates (hd r)"
    using ne by (simp add: hd_conv_nth)
  have l: "map toCoordinates r ! (length r - Suc 0) = toCoordinates (last r)"
    using ne by (simp add: last_conv_nth)
  have eff: "routeEffect s =
    s\<lparr>zoom := zoomForText (messages s),
      mapCenter := Tuple ((fst (map toCoordinates r ! 0) +
                           fst (map toCoordinates r ! (length r - Suc 0))) / 2,
                          (snd (map toCoordinates r ! 0) +
                           snd (map toCoordinates r ! (length r - Suc 0))) / 2)\<rparr>"
    using assms by (simp add: routeEffect_def calculateZoom_def Let_def del: nth_map)
  show ?thesis
    unfolding eff h l by simp
qed

lemma envRoute_sel:
  "uuidv4 envRoute k = ''a'' @ replicate k CHR ''+''"
  "dateNow envRoute k = 5000 + int k"
  "captured envRoute = messages (initialState 0)"
  "sendMessage envRoute m = Some ''Route: [[0, 0], [0, 180]]''"
  "fetchOsrm envRoute c1 c2 = Routes (Some [\<lparr>geometry = [(0, 0), (0, 90), (0, 180)],
     distance_osrm = 20015000, duration_osrm = 720000\<rparr>])"
  "toFixed1 envRoute x = ''?''"
  "roundToString envRoute x = ''?''"
  by (simp_all add: envRoute_def exampleEnv_def)

lemma zoom_enhanced:
  "zoomForText
     [\<lparr>id_msg = ''welcome'', text_msg = welcomeText, isUser = False, timestamp = 0, status = None\<rparr>,
      \<lparr>id_msg = ''a'', text_msg = ''Show me directions from A to B'', isUser = True, timestamp = 5001, status = Some Sent\<rparr>,
      \<lparr>id_msg = ''a+++'', text_msg = ''Route: [[0, 0], [0, 180]]'' @
             ''\<newline>\<newline>Distance: ? km\<newline>Estimated time: ? minutes'', isUser = False, timestamp = 5002, status = None\<rparr>] = 17"
  by code_simp

lemma routeSet_eq:
  "routeSet = (initialState 0)
     \<lparr>pendingRequests := {}, lastRequestTime := 5000, controllers := [False],
       abortControllerRef := None, isLoading := False,
       markers := [\<lparr>id_marker = ''a+'', position = Tuple (0, 0), popup = Some ''Start''\<rparr>,
                   \<lparr>id_marker = ''a++'', position = Tuple (0, 180), popup = Some ''End''\<rparr>],
       route := Some [Tuple (0, 0), Tuple (0, 90), Tuple (0, 180)],
       zoom := 3,
       mapCenter := Tuple (0, 90),
       messages := [\<lparr>id_msg = ''welcome'', text_msg = welcomeText, isUser = False, timestamp = 0, status = None\<rparr>,
          \<lparr>id_msg = ''a'', text_msg = ''Show me directions from A to B'', isUser = True, timestamp = 5001, status = Some Sent\<rparr>,
          \<lparr>id_msg = ''a+++'', text_msg = ''Route: [[0, 0], [0, 180]]'' @
             ''\<newline>\<newline>Distance: ? km\<newline>Estimated time: ? minutes'', isUser = False, timestamp = 5002, status = None\<rparr>]\<rparr>"
proof -
  let ?msg = "''Show me directions from A to B''"
  have adm: "\<not> dateNow envRoute 0 - lastRequestTime (initialState 0) < 1000"
    by (simp add: envRoute_sel initialState_sel)
  have tr: "trim ?msg \<noteq> []"
    by (simp add: trim_def isSpace_def)
  have ai: "getAIResponse envRoute ?msg = ''Route: [[0, 0], [0, 180]]''"
    by (simp add: getAIResponse_def envRoute_sel)
  have ex: "extractCoordinates (getAIResponse envRoute ?msg) = Inr (Some [(0, 0), (0, 180)])"
    unfolding ai by (rule extract_example_half_turn)
  have dir: "getDirections envRoute (0, 0) (0, 180) =
      Inr \<lparr>route_dir = [Tuple (0, 0), Tuple (0, 90), Tuple (0, 180)],
           summary = \<lparr>distance = 20015, duration = 12000\<rparr>\<rparr>"
    by (simp add: getDirections_def envRoute_sel)
  show ?thesis
    unfolding routeSet_def handleMessage_def handleStart_admitted [OF adm tr]
      prod.case Outcome.case afterAI_many [OF ex] afterRoute_def dir sum.case zoom_half_turn
    by (simp add: ai enhancedResponse_def finallyBlock_def markSent_def setStatus_def
          userMessage_def assistantMessage_def envRoute_sel initialState_sel
          eval_nat_numeral initialState_def)
qed

section \<open>The matcher finds exactly what the pattern denotes\<close>

lemma firstSome_Some:
  "firstSome f xs = Some y \<Longrightarrow> \<exists>x \<in> set xs. f x = Some y"
  by (induction xs) (auto split: option.splits)

lemma candidates_repeats:
  "k \<in> set (candidates q n) \<Longrightarrow> k \<le> n \<and> repeats q k"
  by (cases q) (auto split: if_splits)

lemma take_within_run:
  assumes "k \<le> length (takeWhile P s)"
  shows "list_all P (take k s) \<and> length (take k s) = k"
proof -
  have le: "length (takeWhile P s) \<le> length s"
    by (rule length_takeWhile_le)
  have "take k (takeWhile P s @ dropWhile P s) = take k (takeWhile P s)"
    using assms by (simp del: takeWhile_dropWhile_id)
  then have eq: "take k s = take k (takeWhile P s)" by simp
  have "\<forall>x \<in> set (take k (takeWhile P s)). P x"
    by (meson in_set_takeD set_takeWhileD)
  then have "list_all P (take k (takeWhile P s))"
    by (simp add: list_all_iff)
  with eq le assms show ?thesis by simp
qed

lemma rmatch_sound:
  "rmatch r s = Some n \<Longrightarrow> n \<le> length s \<and> denotes r (take n s)"
proof (induction r arbitrary: s n)
  case Nil
  then show ?case by simp
next
  case (Cons aq r)
  obtain a q where aq: "aq = (a, q)" by (cases aq)
  from Cons.prems obtain k where
    k: "k \<in> set (candidates q (length (takeWhile (accepts a) s)))" and
    f: "map_option (\<lambda>n. k + n) (rmatch r (drop k s)) = Some n"
    unfolding aq rmatch.simps using firstSome_Some by fast
  from f obtain n' where n': "rmatch r (drop k s) = Some n'" and n: "n = k + n'"
    by auto
  from candidates_repeats [OF k] have kle: "k \<le> length (takeWhile (accepts a) s)"
    and rep: "repeats q k" by auto
  from take_within_run [OF kle] have all: "list_all (accepts a) (take k s)"
    and len: "length (take k s) = k" by auto
  from Cons.IH [OF n'] have le': "n' \<le> length (drop k s)"
    and den: "denotes r (take n' (drop k s))" by auto
  have kl: "k \<le> length s" using len by (metis length_take min.cobounded1)
  have "\<exists>v w. take n s = v @ w \<and> list_all (accepts a) v \<and> repeats q (length v) \<and> denotes r w"
  proof (intro exI conjI)
    show "take n s = take k s @ take n' (drop k s)"
      unfolding n by (simp add: take_add)
    show "list_all (accepts a) (take k s)" by (rule all)
    show "repeats q (length (take k s))" unfolding len by (rule rep)
    show "denotes r (take n' (drop k s))" by (rule den)
  qed
  then have "denotes (aq # r) (take n s)"
    unfolding aq by simp
  moreover have "n \<le> length s" using n le' kl by simp
  ultimately show ?case by simp
qed

lemma matchAll_sound:
  "m \<in> set (matchAll r s) \<Longrightarrow> denotes r m"
proof (induction r s rule: matchAll.induct)
  case (1 r)
  show ?case
  proof (cases "rmatch r []")
    case None
    with 1 show ?thesis by simp
  next
    case (Some n)
    with 1 have "m = []" by simp
    moreover from rmatch_sound [OF Some] have "denotes r []" by simp
    ultimately show ?thesis by simp
  qed
next
  case (2 r c cs)
  show ?case
  proof (cases "rmatch r (c # cs)")
    case None
    with 2 show ?thesis by simp
  next
    case (Some n)
    with "2.prems" consider "m = take n (c # cs)" | "m \<in> set (matchAll r (drop (max 1 n - 1) cs))"
      by auto
    then show ?thesis
    proof cases
      case 1
      then show ?thesis using rmatch_sound [OF Some] by simp
    next
      case 2
      then show ?thesis using "2.IH"(2) [OF Some] by simp
    qed
  qed
qed

lemma once_chr: "list_all (accepts (Chr c)) v \<and> repeats Once (length v) \<longleftrightarrow> v = [c]"
  by (cases v) auto

lemma optional_chr:
  "list_all (accepts (Chr c)) v \<and> repeats Optional (length v) \<longleftrightarrow> v = [] \<or> v = [c]"
  by (cases v) auto

lemma more_digits: "list_all (accepts Digit) v = list_all isDigit v"
  by (simp add: list_all_iff)

lemma more_spaces: "list_all (accepts Space) v = list_all isSpace v"
  by (simp add: list_all_iff)

lemma denotes_coordsRegex:
  assumes "denotes coordsRegex m"
  shows "\<exists>s1 d1 p1 f1 ws s2 d2 p2 f2.
     m = ''['' @ s1 @ d1 @ p1 @ f1 @ '','' @ ws @ s2 @ d2 @ p2 @ f2 @ '']'' \<and>
     (s1 = [] \<or> s1 = ''-'') \<and> d1 \<noteq> [] \<and> list_all isDigit d1 \<and>
     (p1 = [] \<or> p1 = ''.'') \<and> list_all isDigit f1 \<and>
     list_all isSpace ws \<and>
     (s2 = [] \<or> s2 = ''-'') \<and> d2 \<noteq> [] \<and> list_all isDigit d2 \<and>
     (p2 = [] \<or> p2 = ''.'') \<and> list_all isDigit f2"
proof -
  from assms obtain v1 s1 d1 p1 f1 v2 ws s2 d2 p2 f2 v3 where
    m: "m = v1 @ s1 @ d1 @ p1 @ f1 @ v2 @ ws @ s2 @ d2 @ p2 @ f2 @ v3" and
    "list_all (accepts (Chr CHR ''['')) v1 \<and> repeats Once (length v1)"
    "list_all (accepts (Chr CHR ''-'')) s1 \<and> repeats Optional (length s1)"
    "list_all (accepts Digit) d1" "repeats OneOrMore (length d1)"
    "list_all (accepts (Chr CHR ''.'')) p1 \<and> repeats Optional (length p1)"
    "list_all (accepts Digit) f1"
    "list_all (accepts (Chr CHR '','')) v2 \<and> repeats Once (length v2)"
    "list_all (accepts Space) ws"
    "list_all (accepts (Chr CHR ''-'')) s2 \<and> repeats Optional (length s2)"
    "list_all (accepts Digit) d2" "repeats OneOrMore (length d2)"
    "list_all (accepts (Chr CHR ''.'')) p2 \<and> repeats Optional (length p2)"
    "list_all (accepts Digit) f2"
    "list_all (accepts (Chr CHR '']'')) v3 \<and> repeats Once (length v3)"
    unfolding coordsRegex_def denotes.simps fst_conv snd_conv by auto
  then have "v1 = ''[''" "s1 = [] \<or> s1 = ''-''" "list_all isDigit d1" "d1 \<noteq> []"
    "p1 = [] \<or> p1 = ''.''" "list_all isDigit f1" "v2 = '',''" "list_all isSpace ws"
    "s2 = [] \<or> s2 = ''-''" "list_all isDigit d2" "d2 \<noteq> []"
    "p2 = [] \<or> p2 = ''.''" "list_all isDigit f2" "v3 = '']''"
    unfolding once_chr optional_chr more_digits more_spaces by auto
  with m show ?thesis by blast
qed

lemma denotes_bracketedPair:
  assumes "denotes coordsRegex m"
  shows "bracketedPair m"
proof -
  from denotes_coordsRegex [OF assms]
  obtain s1 d1 p1 f1 ws s2 d2 p2 f2 where
    m: "m = ''['' @ s1 @ d1 @ p1 @ f1 @ '','' @ ws @ s2 @ d2 @ p2 @ f2 @ '']''" and
    n1: "(s1 = [] \<or> s1 = ''-'')" "d1 \<noteq> []" "list_all isDigit d1"
        "(p1 = [] \<or> p1 = ''.'')" "list_all isDigit f1" and
    ws: "list_all isSpace ws" and
    n2: "(s2 = [] \<or> s2 = ''-'')" "d2 \<noteq> []" "list_all isDigit d2"
        "(p2 = [] \<or> p2 = ''.'')" "list_all isDigit f2"
    by blast
  have "numberLiteral (s1 @ d1 @ p1 @ f1)"
    unfolding numberLiteral_def using n1 by blast
  moreover have "numberLiteral (s2 @ d2 @ p2 @ f2)"
    unfolding numberLiteral_def using n2 by blast
  moreover have "m = ''['' @ (s1 @ d1 @ p1 @ f1) @ '','' @ ws @ (s2 @ d2 @ p2 @ f2) @ '']''"
    using m by simp
  ultimately show ?thesis
    unfolding bracketedPair_def using ws by blast
qed

lemma firstSome_None:
  "firstSome f xs = None \<Longrightarrow> x \<in> set xs \<Longrightarrow> f x = None"
  by (induction xs) (auto split: option.splits)

lemma repeats_candidates:
  "k \<le> n \<Longrightarrow> repeats q k \<Longrightarrow> k \<in> set (candidates q n)"
  by (cases q) auto

lemma run_covers_prefix:
  "list_all P v \<Longrightarrow> length v \<le> length (takeWhile P (v @ w))"
  by (induction v) auto

lemma rmatch_complete:
  "denotes r u \<Longrightarrow> rmatch r (u @ rest) \<noteq> None"
proof (induction r arbitrary: u)
  case Nil
  then show ?case by simp
next
  case (Cons aq r)
  obtain a q where aq: "aq = (a, q)" by (cases aq)
  from Cons.prems obtain v w where u: "u = v @ w" and all: "list_all (accepts a) v"
    and rep: "repeats q (length v)" and den: "denotes r w"
    unfolding aq by auto
  have run: "length v \<le> length (takeWhile (accepts a) (u @ rest))"
    using run_covers_prefix [OF all, of "w @ rest"] unfolding u by simp
  have cand: "length v \<in> set (candidates q (length (takeWhile (accepts a) (u @ rest))))"
    by (rule repeats_candidates [OF run rep])
  have dr: "drop (length v) (u @ rest) = w @ rest"
    unfolding u by simp
  have "rmatch r (drop (length v) (u @ rest)) \<noteq> None"
    unfolding dr by (rule Cons.IH [OF den])
  then have fx: "map_option (\<lambda>n. length v + n) (rmatch r (drop (length v) (u @ rest))) \<noteq> None"
    by simp
  show ?case
  proof
    assume "rmatch (aq # r) (u @ rest) = None"
    then have "firstSome (\<lambda>k. map_option (\<lambda>n. k + n) (rmatch r (drop k (u @ rest))))
        (candidates q (length (takeWhile (accepts a) (u @ rest)))) = None"
      unfolding aq by simp
    from firstSome_None [OF this cand] fx show False by simp
  qed
qed

lemma digit_not_bracket: "list_all isDigit d \<Longrightarrow> CHR '']'' \<notin> set d"
proof
  assume "list_all isDigit d" and "CHR '']'' \<in> set d"
  then have "isDigit CHR '']''" by (simp add: list_all_iff)
  then show False by (simp add: isDigit_def)
qed

lemma space_not_bracket: "list_all isSpace d \<Longrightarrow> CHR '']'' \<notin> set d"
proof
  assume "list_all isSpace d" and "CHR '']'' \<in> set d"
  then have "isSpace CHR '']''" by (simp add: list_all_iff)
  then show False by (simp add: isSpace_def)
qed

lemma numberLiteral_no_bracket: "numberLiteral n \<Longrightarrow> CHR '']'' \<notin> set n"
  unfolding numberLiteral_def by (auto dest: digit_not_bracket)

lemma bracketedPair_split:
  assumes "bracketedPair m"
  shows "\<exists>x. m = x @ '']'' \<and> CHR '']'' \<notin> set x"
proof -
  from assms obtain n1 ws n2 where
    m: "m = ''['' @ n1 @ '','' @ ws @ n2 @ '']''" and
    ok: "numberLiteral n1" "list_all isSpace ws" "numberLiteral n2"
    unfolding bracketedPair_def by blast
  have "m = (''['' @ n1 @ '','' @ ws @ n2) @ '']''" using m by simp
  moreover have "CHR '']'' \<notin> set (''['' @ n1 @ '','' @ ws @ n2)"
    using ok by (simp add: numberLiteral_no_bracket space_not_bracket)
  ultimately show ?thesis by blast
qed

lemma denotes_Cons:
  "list_all (accepts a) v \<Longrightarrow> repeats q (length v) \<Longrightarrow> denotes r w \<Longrightarrow>
   denotes ((a, q) # r) (v @ w)"
  by auto

lemma optional_sign: "sg = [] \<or> sg = [c] \<Longrightarrow>
  list_all (accepts (Chr c)) sg \<and> repeats Optional (length sg)"
  by auto

lemma bracketedPair_denotes:
  assumes "bracketedPair m"
  shows "denotes coordsRegex m"
proof -
  from assms obtain n1 ws n2 where
    m: "m = ''['' @ n1 @ '','' @ ws @ n2 @ '']''" and
    ok: "numberLiteral n1" "list_all isSpace ws" "numberLiteral n2"
    unfolding bracketedPair_def by blast
  from ok(1) obtain s1 d1 p1 f1 where n1: "n1 = s1 @ d1 @ p1 @ f1"
    "s1 = [] \<or> s1 = ''-''" "d1 \<noteq> []" "list_all isDigit d1" "p1 = [] \<or> p1 = ''.''"
    "list_all isDigit f1"
    unfolding numberLiteral_def by blast
  from ok(3) obtain s2 d2 p2 f2 where n2: "n2 = s2 @ d2 @ p2 @ f2"
    "s2 = [] \<or> s2 = ''-''" "d2 \<noteq> []" "list_all isDigit d2" "p2 = [] \<or> p2 = ''.''"
    "list_all isDigit f2"
    unfolding numberLiteral_def by blast
  have l1: "repeats OneOrMore (length d1)" "repeats OneOrMore (length d2)"
    using n1(3) n2(3) by (simp_all add: Suc_le_eq)
  have dg: "list_all (accepts Digit) d1" "list_all (accepts Digit) f1"
    "list_all (accepts Digit) d2" "list_all (accepts Digit) f2"
    using n1 n2 by (simp_all add: more_digits)
  have sp: "list_all (accepts Space) ws"
    using ok(2) by (simp add: more_spaces)
  have one: "list_all (accepts (Chr c)) [c]" "repeats Once (length [c])" for c
    by simp_all
  have any: "repeats ZeroOrMore k" for k by simp
  have e0: "denotes [] []" by simp
  note e1 = denotes_Cons [OF one e0, of "CHR '']''"]
  note e2 = denotes_Cons [OF dg(4) any e1]
  note o2 = optional_sign [OF n2(5)]
  note e3 = denotes_Cons [OF conjunct1 [OF o2] conjunct2 [OF o2] e2]
  note e4 = denotes_Cons [OF dg(3) l1(2) e3]
  note q2 = optional_sign [OF n2(2)]
  note e5 = denotes_Cons [OF conjunct1 [OF q2] conjunct2 [OF q2] e4]
  note e6 = denotes_Cons [OF sp any e5]
  note e7 = denotes_Cons [OF one e6, of "CHR '',''"]
  note e8 = denotes_Cons [OF dg(2) any e7]
  note o1 = optional_sign [OF n1(5)]
  note e9 = denotes_Cons [OF conjunct1 [OF o1] conjunct2 [OF o1] e8]
  note e10 = denotes_Cons [OF dg(1) l1(1) e9]
  note q1 = optional_sign [OF n1(2)]
  note e11 = denotes_Cons [OF conjunct1 [OF q1] conjunct2 [OF q1] e10]
  note e12 = denotes_Cons [OF one e11, of "CHR ''[''"]
  have "m = ''['' @ s1 @ d1 @ p1 @ f1 @ '','' @ ws @ s2 @ d2 @ p2 @ f2 @ '']'' @ []"
    unfolding m n1(1) n2(1) by simp
  then show ?thesis
    unfolding coordsRegex_def using e12 by simp
qed

lemma first_occurrence_unique:
  "c \<notin> set x \<Longrightarrow> c \<notin> set y \<Longrightarrow> x @ c # a = y @ c # b \<Longrightarrow> x = y"
proof (induction x arbitrary: y)
  case Nil
  then show ?case by (cases y) auto
next
  case (Cons h t)
  then show ?case by (cases y) auto
qed

lemma rmatch_bracketedPair:
  assumes "bracketedPair m"
  shows "rmatch coordsRegex (m @ rest) = Some (length m)"
proof -
  from rmatch_complete [OF bracketedPair_denotes [OF assms], of rest]
  obtain n where n: "rmatch coordsRegex (m @ rest) = Some n" by auto
  from rmatch_sound [OF n] have le: "n \<le> length (m @ rest)"
    and den: "denotes coordsRegex (take n (m @ rest))" by auto
  from bracketedPair_split [OF assms] obtain x where
    x: "m = x @ '']''" "CHR '']'' \<notin> set x" by blast
  from bracketedPair_split [OF denotes_bracketedPair [OF den]] obtain y where
    y: "take n (m @ rest) = y @ '']''" "CHR '']'' \<notin> set y" by blast
  define D where "D = drop n (m @ rest)"
  have "take n (m @ rest) @ D = m @ rest"
    unfolding D_def by (rule append_take_drop_id)
  then have "(y @ '']'') @ D = m @ rest"
    by (simp only: y(1))
  then have "y @ CHR '']'' # D = x @ CHR '']'' # rest"
    by (simp add: x(1))
  with y(2) x(2) have "y = x"
    by (rule first_occurrence_unique)
  then have "take n (m @ rest) = m" using x(1) y(1) by simp
  then have "length (take n (m @ rest)) = length m" by simp
  then have "n = length m" using le by simp
  with n show ?thesis by simp
qed

lemma rmatch_coordsRegex_empty: "rmatch coordsRegex [] = None"
  by code_simp

lemma matchAll_bracketedPair_self:
  assumes "bracketedPair m"
  shows "matchAll coordsRegex m = [m]"
proof -
  from bracketedPair_split [OF assms] obtain c cs where m: "m = c # cs"
    by (cases m) auto
  have r: "rmatch coordsRegex (c # cs) = Some (length (c # cs))"
    using rmatch_bracketedPair [OF assms, of "[]"] unfolding m by simp
  have "matchAll coordsRegex (c # cs) = [c # cs]"
    unfolding matchAll.simps r by (simp add: rmatch_coordsRegex_empty)
  then show ?thesis unfolding m .
qed

lemma extract_examples:
  "extractCoordinates ''[51.5, -0.09]'' = Inr (Some [(51.5, -0.09)])"
  "extractCoordinates ''[51.5,-0.09]'' = Inr (Some [(51.5, -0.09)])"
  "extractCoordinates ''[ 51.5, -0.09]'' = Inr None"
  "extractCoordinates ''[51.5, -0.09 ]'' = Inr None"
  "extractCoordinates ''[.5, 2]'' = Inr None"
  by code_simp+

lemma matches_example_text:
  "matchAll coordsRegex ''at [51.5, -0.09] ok'' = [''[51.5, -0.09]'']"
  by code_simp

section \<open>Every match parses to two numbers\<close>

lemma not_digit_chars:
  "\<not> isDigit CHR ''.''" "\<not> isDigit CHR ''-''" "\<not> isDigit CHR ''+''"
  by (simp_all add: isDigit_def)

lemma digit_plain:
  assumes "isDigit c"
  shows "\<not> isSpace c \<and> c \<noteq> CHR '','' \<and> c \<noteq> CHR ''['' \<and> c \<noteq> CHR '']'' \<and>
         c \<noteq> CHR ''-'' \<and> c \<noteq> CHR ''+''"
  using assms by (auto simp add: isDigit_def isSpace_def)

lemma numberLiteral_chars:
  assumes "numberLiteral n" and "c \<in> set n"
  shows "\<not> isSpace c \<and> c \<noteq> CHR '','' \<and> c \<noteq> CHR ''['' \<and> c \<noteq> CHR '']''"
proof -
  from assms(1) obtain sg ds pt fs where n: "n = sg @ ds @ pt @ fs"
    and sg: "sg = [] \<or> sg = ''-''" and ds: "list_all isDigit ds"
    and pt: "pt = [] \<or> pt = ''.''" and fs: "list_all isDigit fs"
    unfolding numberLiteral_def by blast
  from assms(2) n consider "c \<in> set sg" | "c \<in> set ds" | "c \<in> set pt" | "c \<in> set fs"
    by auto
  then show ?thesis
  proof cases
    case 1
    with sg have "c = CHR ''-''" by auto
    then show ?thesis by (simp add: isSpace_def)
  next
    case 2
    with ds have "isDigit c" by (simp add: list_all_iff)
    then show ?thesis using digit_plain by blast
  next
    case 3
    with pt have "c = CHR ''.''" by auto
    then show ?thesis by (simp add: isSpace_def)
  next
    case 4
    with fs have "isDigit c" by (simp add: list_all_iff)
    then show ?thesis using digit_plain by blast
  qed
qed

lemma unsignedDecimal_literal:
  assumes "ds \<noteq> []" and "list_all isDigit ds" and "pt = [] \<or> pt = ''.''"
    and "list_all isDigit fs"
  shows "unsignedDecimal (ds @ pt @ fs) \<noteq> None"
proof -
  from assms(3) show ?thesis
  proof
    assume pt: "pt = []"
    have all: "\<forall>x \<in> set (ds @ fs). isDigit x"
      using assms(2,4) by (auto simp add: list_all_iff)
    then have "takeWhile isDigit (ds @ fs) = ds @ fs" "dropWhile isDigit (ds @ fs) = []"
      by simp_all
    then show ?thesis
      unfolding pt using assms(1) by (simp add: unsignedDecimal_def)
  next
    assume pt: "pt = ''.''"
    have all: "\<forall>x \<in> set ds. isDigit x"
      using assms(2) by (simp add: list_all_iff)
    have tw: "takeWhile isDigit (ds @ CHR ''.'' # fs) = ds"
      using all by (simp add: takeWhile_tail not_digit_chars)
    have dw: "dropWhile isDigit (ds @ CHR ''.'' # fs) = CHR ''.'' # fs"
      using all by (simp add: dropWhile_append2 not_digit_chars)
    show ?thesis
      unfolding pt using assms(1,4) by (simp add: unsignedDecimal_def tw dw)
  qed
qed

lemma trim_literal:
  assumes "t \<noteq> []" and "\<forall>c \<in> set t. \<not> isSpace c" and "list_all isSpace ws"
  shows "trim (ws @ t) = t"
proof -
  have "dropWhile isSpace (ws @ t) = dropWhile isSpace t"
    using assms(3) by (simp add: dropWhile_append2 list_all_iff)
  also have "\<dots> = t"
    using assms(1,2) by (cases t) auto
  finally have d: "dropWhile isSpace (ws @ t) = t" .
  have "dropWhile isSpace (rev t) = rev t"
    using assms(1,2) by (cases "rev t") (auto simp add: dropWhile_eq_self_iff)
  then show ?thesis
    unfolding trim_def d by simp
qed

lemma Number_literal:
  assumes "numberLiteral n" and "list_all isSpace ws"
  shows "Number (ws @ n) \<noteq> None"
proof -
  from assms(1) obtain sg ds pt fs where n: "n = sg @ ds @ pt @ fs"
    and sg: "sg = [] \<or> sg = ''-''" and ne: "ds \<noteq> []" and ds: "list_all isDigit ds"
    and pt: "pt = [] \<or> pt = ''.''" and fs: "list_all isDigit fs"
    unfolding numberLiteral_def by blast
  have nn: "n \<noteq> []" using n ne by simp
  have ns: "\<forall>c \<in> set n. \<not> isSpace c"
    using numberLiteral_chars [OF assms(1)] by blast
  have tr: "trim (ws @ n) = n"
    by (rule trim_literal [OF nn ns assms(2)])
  have ud: "unsignedDecimal (ds @ pt @ fs) \<noteq> None"
    by (rule unsignedDecimal_literal [OF ne ds pt fs])
  have N: "Number (ws @ n) =
      (if hd n = CHR ''-'' then map_option uminus (unsignedDecimal (tl n))
       else if hd n = CHR ''+'' then unsignedDecimal (tl n)
       else unsignedDecimal n)"
    using nn by (simp add: Number_def tr)
  obtain d ds' where dd: "ds = d # ds'" using ne by (cases ds) auto
  have d: "isDigit d" using ds dd by simp
  from sg show ?thesis
  proof
    assume "sg = []"
    then have e: "n = ds @ pt @ fs" using n by simp
    have "hd n = d" unfolding e dd by simp
    then have "hd n \<noteq> CHR ''-''" "hd n \<noteq> CHR ''+''"
      using d digit_plain by auto
    then have "Number (ws @ n) = unsignedDecimal n"
      unfolding N by simp
    then show ?thesis
      using ud unfolding e by simp
  next
    assume "sg = ''-''"
    then have e: "n = CHR ''-'' # ds @ pt @ fs" using n by simp
    have h: "hd n = CHR ''-''" "tl n = ds @ pt @ fs"
      unfolding e by simp_all
    have "Number (ws @ n) = map_option uminus (unsignedDecimal (ds @ pt @ fs))"
      unfolding N by (simp add: h)
    then show ?thesis
      using ud by simp
  qed
qed

lemma split_no_sep: "sep \<notin> set a \<Longrightarrow> split sep a = [a]"
  by (induction a) auto

lemma split_at_sep: "sep \<notin> set a \<Longrightarrow> split sep (a @ sep # b) = a # split sep b"
  by (induction a) auto

lemma space_not_comma:
  assumes "list_all isSpace ws" and "c \<in> set ws"
  shows "c \<noteq> CHR '','' \<and> c \<noteq> CHR ''['' \<and> c \<noteq> CHR '']''"
proof -
  from assms have "isSpace c" by (simp add: list_all_iff)
  then show ?thesis by (auto simp add: isSpace_def)
qed

lemma parseCoord_numeric:
  assumes "bracketedPair m"
  shows "parseCoord m \<noteq> Inl InvalidCoordinates"
proof -
  from assms obtain n1 ws n2 where
    m: "m = ''['' @ n1 @ '','' @ ws @ n2 @ '']''" and
    ok: "numberLiteral n1" "list_all isSpace ws" "numberLiteral n2"
    unfolding bracketedPair_def by blast
  let ?keep = "\<lambda>c. c \<noteq> CHR ''['' \<and> c \<noteq> CHR '']''"
  have k1: "filter ?keep n1 = n1" and k2: "filter ?keep n2 = n2" and kw: "filter ?keep ws = ws"
    using numberLiteral_chars [OF ok(1)] numberLiteral_chars [OF ok(3)] space_not_comma [OF ok(2)]
    by (simp_all add: filter_id_conv)
  have f: "filter ?keep m = n1 @ CHR '','' # (ws @ n2)"
    unfolding m by (simp add: k1 k2 kw)
  have c1: "CHR '','' \<notin> set n1"
    using numberLiteral_chars [OF ok(1)] by blast
  have c2: "CHR '','' \<notin> set (ws @ n2)"
    using numberLiteral_chars [OF ok(3)] space_not_comma [OF ok(2)] by auto
  have sp: "split CHR '','' (filter ?keep m) = [n1, ws @ n2]"
    unfolding f by (simp add: split_at_sep [OF c1] split_no_sep [OF c2])
  from Number_literal [OF ok(1), of "[]"] obtain x where x: "Number n1 = Some x" by auto
  from Number_literal [OF ok(3) ok(2)] obtain y where y: "Number (ws @ n2) = Some y" by auto
  have "parseCoord m = validateCoordinates (Some x) (Some y)"
    unfolding parseCoord_def sp by (simp add: x y)
  then show ?thesis
    by (simp add: validateCoordinates_def)
qed

lemma match_never_non_numeric:
  "m \<in> set (matchAll coordsRegex s) \<Longrightarrow> parseCoord m \<noteq> Inl InvalidCoordinates"
  by (rule parseCoord_numeric [OF denotes_bracketedPair [OF matchAll_sound]])

section \<open>Cooldown and the set of pending requests\<close>

text \<open>
  Claim C6. A call of the handler less than 1000 ms after the start of the previous
  admitted call throws the cooldown error and leaves the whole state as it was: no
  message, no pending identifier, no marker, route or viewport change, and
  \<open>lastRequestTime\<close> is not advanced.
\<close>

theorem cooldown_rejection_mutates_nothing:
  assumes "dateNow env 0 - lastRequestTime s < 1000"
  shows "handleStart env message s = (Threw Cooldown, s) \<and>
         handleMessage env message s = (Threw Cooldown, s)"
  using assms by (simp add: handleMessage_def handleStart_def REQUEST_COOLDOWN_def)

theorem cooldown_rejection_witness:
  "dateNow (exampleEnv ''b'' 5200 [] None FetchRejected) 0 -
     lastRequestTime ((initialState 0)\<lparr>lastRequestTime := 5000\<rparr>) < 1000 \<and>
   handleMessage (exampleEnv ''b'' 5200 [] None FetchRejected) ''Where is Paris?''
     ((initialState 0)\<lparr>lastRequestTime := 5000\<rparr>) =
   (Threw Cooldown, (initialState 0)\<lparr>lastRequestTime := 5000\<rparr>)"
  using cooldown_rejection_mutates_nothing
    [of "exampleEnv ''b'' 5200 [] None FetchRejected"
        "(initialState 0)\<lparr>lastRequestTime := 5000\<rparr>" "''Where is Paris?''"]
  by (simp add: exampleEnv_def)

text \<open>
  Every admitted call with a text that is not blank ends with its identifier removed
  from the pending set, whichever branch it takes.
\<close>

lemma nonblank_message_clears_pending_id:
  assumes "\<not> dateNow env 0 - lastRequestTime s < 1000" and "trim message \<noteq> []"
  shows "fst (handleMessage env message s) = Returned \<and>
         pendingRequests (snd (handleMessage env message s)) = pendingRequests s - {uuidv4 env 0}"
  using assms
  by (auto simp add: handleMessage_def handleStart_def afterAI_def afterRoute_def
        REQUEST_COOLDOWN_def finallyBlock_def markSent_def catchBlock_def handleError_def
        directionsFailed_def Let_def
      split: sum.splits option.splits list.splits)


section \<open>Failures of the two services and of validation\<close>

text \<open>
  Claim C2, as the code has it. When the AI chat call fails, \<open>getAIResponse\<close> answers
  with its fixed fallback text, so the handler sees an ordinary answer without
  coordinates: it appends the fallback text as the assistant message and marks the user
  message as sent.
\<close>

theorem ai_failure_appends_fallback_marks_sent:
  assumes "\<not> dateNow env 0 - lastRequestTime s < 1000"
    and "trim message \<noteq> []"
    and "sendMessage env message = None"
  shows "fst (handleMessage env message s) = Returned \<and>
         messages (snd (handleMessage env message s)) =
           setStatus (uuidv4 env 0) Sent
             (messages s @ [userMessage (uuidv4 env 0) message (dateNow env 1),
                            assistantMessage (uuidv4 env 1) aiFallback (dateNow env 2)]) \<and>
         status (messages (snd (handleMessage env message s)) ! length (messages s)) = Some Sent \<and>
         text_msg (last (messages (snd (handleMessage env message s)))) = aiFallback"
proof -
  have ai: "getAIResponse env message = aiFallback"
    using assms(3) by (simp add: getAIResponse_def)
  show ?thesis
    by (simp add: handleMessage_def handleStart_admitted [OF assms(1,2)] ai
          afterAI_none [OF extract_aiFallback] finallyBlock_def markSent_def
          setStatus_def nth_append userMessage_def assistantMessage_def)
qed

theorem ai_failure_witness:
  "messages (snd (handleMessage (exampleEnv ''a'' 5000 [] None FetchRejected) ''Where is Paris?'' (initialState 0))) =
     [\<lparr>id_msg = ''welcome'', text_msg = welcomeText, isUser = False, timestamp = 0, status = None\<rparr>,
      \<lparr>id_msg = ''a'', text_msg = ''Where is Paris?'', isUser = True, timestamp = 5001, status = Some Sent\<rparr>,
      \<lparr>id_msg = ''a+'', text_msg = aiFallback, isUser = False, timestamp = 5002, status = None\<rparr>]"
  using ai_failure_appends_fallback_marks_sent [of "exampleEnv ''a'' 5000 [] None FetchRejected" "initialState 0" "''Where is Paris?''"]
  by (simp add: exampleEnv_sel initialState_sel trim_def isSpace_def setStatus_def userMessage_def assistantMessage_def)

text \<open>
  Claim C2 as stated fails: with a failing AI call the user message does not get the
  status error.
\<close>

theorem ai_failure_marks_sent_counterexample:
  "sendMessage (exampleEnv ''a'' 5000 [] None FetchRejected) ''Where is Paris?'' = None \<and>
   status (messages (snd (handleMessage (exampleEnv ''a'' 5000 [] None FetchRejected)
      ''Where is Paris?'' (initialState 0))) ! 1) = Some Sent \<and>
   status (messages (snd (handleMessage (exampleEnv ''a'' 5000 [] None FetchRejected)
      ''Where is Paris?'' (initialState 0))) ! 1) \<noteq> Some Error"
proof -
  have ai: "getAIResponse (exampleEnv ''a'' 5000 [] None FetchRejected) ''Where is Paris?'' = aiFallback"
    by (simp add: getAIResponse_def exampleEnv_sel)
  have adm: "\<not> dateNow (exampleEnv ''a'' 5000 [] None FetchRejected) 0 - lastRequestTime (initialState 0) < 1000"
    by (simp add: exampleEnv_sel initialState_sel)
  show ?thesis
    by (simp add: handleMessage_def handleStart_admitted [OF adm example_trim] ai
          afterAI_none [OF extract_aiFallback] finallyBlock_def markSent_def setStatus_def
          userMessage_def assistantMessage_def exampleEnv_sel initialState_sel)
qed






section \<open>Overlapping requests\<close>


section \<open>Zoom and viewport\<close>

text \<open>
  Claim C4. After the route is replaced by a route of at least two points the centre
  becomes the midpoint of its first and last point, and the zoom is to be recomputed in
  route mode from these two points. The effect calls \<open>calculateZoom\<close> without its
  second argument, so the zoom comes from the keywords of the last message
  (lemma \<open>routeEffect_viewport\<close>): for the route over half a turn the handler sets the
  route-mode zoom 3 and the effect replaces it by 17.
\<close>

theorem route_effect_uses_keyword_zoom:
  "route routeSet = Some [Tuple (0, 0), Tuple (0, 90), Tuple (0, 180)] \<and>
   zoom routeSet = 3 \<and>
   calculateZoom [(0, 0), (0, 180)] True (messages routeSet) = Inr 3 \<and>
   zoom (routeEffect routeSet) = 17 \<and>
   mapCenter (routeEffect routeSet) = Tuple (0, 90)"
proof -
  have r: "route routeSet = Some [Tuple (0, 0), Tuple (0, 90), Tuple (0, 180)]"
    by (simp add: routeSet_eq)
  have m: "messages routeSet =
     [\<lparr>id_msg = ''welcome'', text_msg = welcomeText, isUser = False, timestamp = 0, status = None\<rparr>,
      \<lparr>id_msg = ''a'', text_msg = ''Show me directions from A to B'', isUser = True, timestamp = 5001, status = Some Sent\<rparr>,
      \<lparr>id_msg = ''a+++'', text_msg = ''Route: [[0, 0], [0, 180]]'' @
             ''\<newline>\<newline>Distance: ? km\<newline>Estimated time: ? minutes'', isUser = False, timestamp = 5002, status = None\<rparr>]"
    unfolding routeSet_eq by (simp del: append.simps)
  have z: "zoomForText (messages routeSet) = 17"
    unfolding m by (rule zoom_enhanced)
  show ?thesis
    using routeEffect_viewport [OF r] z
    by (simp add: zoom_half_turn) (simp add: routeSet_eq)
qed





section \<open>The coordinate pattern\<close>

text \<open>
  Claim C10. Extraction recognises a bracketed pair only in the form described by
  \<open>bracketedPair\<close>: no white space between the opening bracket and the first number or
  between the second number and the closing bracket, at least one digit before an
  optional point in each number, white space only after the comma; and every text of
  that form is recognised as one match. So \<open>[51.5, -0.09]\<close> and \<open>[51.5,-0.09]\<close> are
  extracted, and \<open>[ 51.5, -0.09]\<close>, \<open>[51.5, -0.09 ]\<close> and \<open>[.5, 2]\<close> yield no coordinate.
\<close>

theorem coords_pattern_recognises_bracketed_pairs:
  "(m \<in> set (matchAll coordsRegex s) \<longrightarrow> bracketedPair m) \<and>
   (bracketedPair m \<longleftrightarrow> matchAll coordsRegex m = [m]) \<and>
   extractCoordinates ''[51.5, -0.09]'' = Inr (Some [(51.5, -0.09)]) \<and>
   extractCoordinates ''[51.5,-0.09]'' = Inr (Some [(51.5, -0.09)]) \<and>
   extractCoordinates ''[ 51.5, -0.09]'' = Inr None \<and>
   extractCoordinates ''[51.5, -0.09 ]'' = Inr None \<and>
   extractCoordinates ''[.5, 2]'' = Inr None"
proof (intro conjI impI iffI)
  assume "m \<in> set (matchAll coordsRegex s)"
  then show "bracketedPair m"
    by (rule denotes_bracketedPair [OF matchAll_sound])
next
  assume "bracketedPair m"
  then show "matchAll coordsRegex m = [m]"
    by (rule matchAll_bracketedPair_self)
next
  assume "matchAll coordsRegex m = [m]"
  then have "m \<in> set (matchAll coordsRegex m)" by simp
  then show "bracketedPair m"
    by (rule denotes_bracketedPair [OF matchAll_sound])
qed (rule extract_examples)+

theorem coords_pattern_witness:
  "''[51.5, -0.09]'' \<in> set (matchAll coordsRegex ''at [51.5, -0.09] ok'') \<and>
   bracketedPair ''[51.5, -0.09]'' \<and>
   matchAll coordsRegex ''[51.5, -0.09]'' = [''[51.5, -0.09]'']"
proof -
  note inst = coords_pattern_recognises_bracketed_pairs
    [of "''[51.5, -0.09]''" "''at [51.5, -0.09] ok''"]
  have mem: "''[51.5, -0.09]'' \<in> set (matchAll coordsRegex ''at [51.5, -0.09] ok'')"
    unfolding matches_example_text by simp
  from conjunct1 [OF inst] mem have bp: "bracketedPair ''[51.5, -0.09]''"
    by (rule mp)
  from conjunct1 [OF conjunct2 [OF inst]] bp
  have self: "matchAll coordsRegex ''[51.5, -0.09]'' = [''[51.5, -0.09]'']"
    by (rule iffD1)
  from mem bp self show ?thesis by (intro conjI)
qed

end
